theory Spec2Isabelle
  imports Main
begin

section \<open>The Clubhouse client (\<^verbatim>\<open>clubhouse/api.py\<close>)\<close>

text \<open>
  A shallow embedding of \<^verbatim>\<open>ClubhouseClient\<close>. Python strings are character lists,
  exceptions are values of \<open>error\<close> returned on the left of a sum, and the two
  effects of the client (the HTTP calls it makes through \<^verbatim>\<open>requests.request\<close> and the
  lines it writes to the logger) are recorded in an explicit \<open>world\<close> that every
  operation takes and returns. The library functions the client calls
  (\<^verbatim>\<open>str.strip\<close>, \<^verbatim>\<open>str.startswith\<close>, \<^verbatim>\<open>os.path.join\<close> of \<^verbatim>\<open>posixpath\<close>,
  \<^verbatim>\<open>urllib.parse.urlparse\<close>, \<^verbatim>\<open>json.dumps\<close>, \<^verbatim>\<open>Response.raise_for_status\<close>) are
  written out as the functions they are in CPython and \<^verbatim>\<open>requests\<close>.
\<close>

subsection \<open>Constants\<close>

definition ENDPOINT_HOST :: string where
  "ENDPOINT_HOST = ''https://api.clubhouse.io''"

definition ENDPOINT_PATH :: string where
  "ENDPOINT_PATH = ''/api/v3''"

subsection \<open>Values and exceptions\<close>

text \<open>
  \<^verbatim>\<open>requests.PreparedRequest\<close>, as far as the client can observe it: the method and
  the URL of a request that has been prepared and not sent.
\<close>

record prepared_request =
  prepared_method :: string
  prepared_url :: string

text \<open>
  A path segment is whatever \<^verbatim>\<open>_request\<close> is passed: the facades pass resource names
  (strings) and identifiers (integers), and the pagination loop passes the
  \<^verbatim>\<open>next\<close> of a response, which is a \<^verbatim>\<open>PreparedRequest\<close>.
\<close>

datatype segment = Str string | Num int | Prepared prepared_request

text \<open>JSON-serialisable Python values: payloads and decoded bodies.\<close>

datatype json =
    JNull
  | JBool bool
  | JNum int
  | JStr string
  | JArr "json list"
  | JObj "(string \<times> json) list"

text \<open>
  The exceptions that can leave the client. \<open>HTTPError\<close> carries the response's
  status code and body (\<^verbatim>\<open>requests\<close> attaches the whole response to it);
  \<open>TransportError\<close> and \<open>JSONDecodeError\<close> come from the transport and from
  \<^verbatim>\<open>Response.json\<close> and pass through unchanged.
\<close>

datatype error =
    IndexError
  | AttributeError
  | TypeError
  | HTTPError int string
  | TransportError string
  | JSONDecodeError

subsection \<open>String functions of the Python library\<close>

text \<open>\<^verbatim>\<open>s.startswith(p)\<close>.\<close>

fun startswith :: "string \<Rightarrow> string \<Rightarrow> bool" where
  "startswith s [] = True"
| "startswith [] (p # ps) = False"
| "startswith (c # cs) (p # ps) = (c = p \<and> startswith cs ps)"

text \<open>\<^verbatim>\<open>s.strip("/")\<close>: every leading and every trailing slash is removed.\<close>

definition strip_slashes :: "string \<Rightarrow> string" where
  "strip_slashes s =
     rev (dropWhile (\<lambda>c. c = CHR ''/'') (rev (dropWhile (\<lambda>c. c = CHR ''/'') s)))"

text \<open>\<^verbatim>\<open>str(n)\<close> of an integer: its decimal digits, with a minus sign when negative.\<close>

definition digit_char :: "nat \<Rightarrow> char" where
  "digit_char d = ''0123456789'' ! (d mod 10)"

fun digits_of :: "nat \<Rightarrow> string" where
  "digits_of n =
     (if n < 10 then [digit_char n] else digits_of (n div 10) @ [digit_char (n mod 10)])"

declare digits_of.simps [simp del]

definition str_of_int :: "int \<Rightarrow> string" where
  "str_of_int i = (if i < 0 then ''-'' @ digits_of (nat (- i)) else digits_of (nat i))"

text \<open>
  \<^verbatim>\<open>str(s)\<close> of a segment; \<^verbatim>\<open>PreparedRequest.__repr__\<close> gives
  \<^verbatim>\<open><PreparedRequest [GET]>\<close> for a prepared GET.
\<close>

fun str :: "segment \<Rightarrow> string" where
  "str (Str s) = s"
| "str (Num n) = str_of_int n"
| "str (Prepared p) = ''<PreparedRequest ['' @ prepared_method p @ '']>''"

text \<open>
  \<^verbatim>\<open>os.path.join(a, *p)\<close> as \<^verbatim>\<open>posixpath\<close> defines it: a component that starts with
  the separator replaces what was joined so far; otherwise it is appended, after a
  separator unless the path so far is empty or already ends with one.
\<close>

definition join_step :: "string \<Rightarrow> string \<Rightarrow> string" where
  "join_step path b =
     (if startswith b ''/'' then b
      else if path = [] \<or> last path = CHR ''/'' then path @ b
      else path @ ''/'' @ b)"

definition path_join :: "string \<Rightarrow> string list \<Rightarrow> string" where
  "path_join a p = foldl join_step a p"

text \<open>
  \<^verbatim>\<open>urlparse(url)[4]\<close>, the query: \<^verbatim>\<open>urlsplit\<close> removes tab, carriage return and line
  feed from the URL, cuts the fragment off at the first \<open>#\<close> and takes as the query
  what follows the first \<open>?\<close> of the rest. Scheme and network location are split off
  before that; every URL the client builds starts with \<open>ENDPOINT_HOST\<close> followed by a
  slash, and \<open>ENDPOINT_HOST\<close> holds none of these characters, so the query can be
  read off the whole URL.
\<close>

definition urlparse_query :: "string \<Rightarrow> string" where
  "urlparse_query u =
     (let u1 = filter (\<lambda>c. c \<noteq> CHR 0x09 \<and> c \<noteq> CHR 0x0D \<and> c \<noteq> CHR 0x0A) u;
          u2 = takeWhile (\<lambda>c. c \<noteq> CHR ''#'') u1
      in case dropWhile (\<lambda>c. c \<noteq> CHR ''?'') u2 of [] \<Rightarrow> [] | q # qs \<Rightarrow> qs)"

subsection \<open>URL construction (lines 54-57 of \<^verbatim>\<open>_request\<close>)\<close>

text \<open>
  \<^verbatim>\<open>segments[0]\<close> raises \<open>IndexError\<close> on an empty tuple, and \<^verbatim>\<open>.startswith\<close> exists
  on strings only: an integer or a \<^verbatim>\<open>PreparedRequest\<close> as first segment raises
  \<open>AttributeError\<close>.
\<close>

definition build_url :: "segment list \<Rightarrow> error + string" where
  "build_url segments =
     (case segments of
        [] \<Rightarrow> Inl IndexError
      | Num n # rest \<Rightarrow> Inl AttributeError
      | Prepared p # rest \<Rightarrow> Inl AttributeError
      | Str s # rest \<Rightarrow>
          (let segments' =
                 (if \<not> startswith s ENDPOINT_PATH then Str ENDPOINT_PATH # segments
                  else segments)
           in Inr (path_join ENDPOINT_HOST (map (\<lambda>s. strip_slashes (str s)) segments'))))"

subsection \<open>\<^verbatim>\<open>json.dumps\<close>\<close>

text \<open>
  \<^verbatim>\<open>json.dumps\<close> with its default arguments (\<^verbatim>\<open>ensure_ascii=True\<close>, separators
  \<open>", "\<close> and \<open>": "\<close>). In a string the quote, the backslash and the control
  characters with a short form are escaped by a backslash, and every other character
  outside \<open>' '..'~'\<close> is written \<open>\u00xx\<close> (characters here are code points below
  256). Dictionary keys are strings.
\<close>

definition hex_digit :: "nat \<Rightarrow> char" where
  "hex_digit d = ''0123456789abcdef'' ! (d mod 16)"

definition escape_char :: "char \<Rightarrow> string" where
  "escape_char c =
     (if c = CHR 0x22 then [CHR 0x5C, CHR 0x22]
      else if c = CHR 0x5C then [CHR 0x5C, CHR 0x5C]
      else if c = CHR 0x0A then [CHR 0x5C, CHR ''n'']
      else if c = CHR 0x0D then [CHR 0x5C, CHR ''r'']
      else if c = CHR 0x09 then [CHR 0x5C, CHR ''t'']
      else if c = CHR 0x08 then [CHR 0x5C, CHR ''b'']
      else if c = CHR 0x0C then [CHR 0x5C, CHR ''f'']
      else if (of_char c :: nat) < 32 \<or> 126 < (of_char c :: nat)
        then [CHR 0x5C] @ ''u00'' @
             [hex_digit ((of_char c :: nat) div 16), hex_digit ((of_char c :: nat) mod 16)]
      else [c])"

definition dumps_string :: "string \<Rightarrow> string" where
  "dumps_string s = [CHR 0x22] @ concat (map escape_char s) @ [CHR 0x22]"

fun join_with :: "string \<Rightarrow> string list \<Rightarrow> string" where
  "join_with sep [] = []"
| "join_with sep [x] = x"
| "join_with sep (x # y # zs) = x @ sep @ join_with sep (y # zs)"

fun json_dumps :: "json \<Rightarrow> string" where
  "json_dumps JNull = ''null''"
| "json_dumps (JBool b) = (if b then ''true'' else ''false'')"
| "json_dumps (JNum n) = str_of_int n"
| "json_dumps (JStr s) = dumps_string s"
| "json_dumps (JArr xs) = ''['' @ join_with '', '' (map json_dumps xs) @ '']''"
| "json_dumps (JObj kvs) =
     ''{'' @ join_with '', '' (map (\<lambda>kv. dumps_string (fst kv) @ '': '' @ json_dumps (snd kv)) kvs)
       @ ''}''"

subsection \<open>The client, the transport and the world\<close>

record client =
  api_key :: string
  ignored_status_codes :: "int list"

text \<open>\<^verbatim>\<open>__init__\<close>: \<^verbatim>\<open>ignored_status_codes or []\<close>.\<close>

definition ClubhouseClient :: "string \<Rightarrow> int list option \<Rightarrow> client" where
  "ClubhouseClient key ignored =
     \<lparr>api_key = key,
      ignored_status_codes = (case ignored of None \<Rightarrow> [] | Some codes \<Rightarrow> codes)\<rparr>"

text \<open>
  What \<^verbatim>\<open>requests.request\<close> is called with: the method, the URL, the headers, the
  body and the keyword arguments passed through.
\<close>

record http_request =
  req_method :: string
  req_url :: string
  req_headers :: "(string \<times> string) list"
  req_data :: string
  req_kwargs :: "(string \<times> json) list"

text \<open>
  What the client reads of a \<^verbatim>\<open>requests.Response\<close>: \<^verbatim>\<open>status_code\<close>, \<^verbatim>\<open>text\<close>, the
  outcome of \<^verbatim>\<open>json()\<close> (a decoded value, or the exception it raises) and the
  property \<^verbatim>\<open>next\<close>. In \<^verbatim>\<open>requests\<close> that property is \<^verbatim>\<open>None\<close>, or the
  \<^verbatim>\<open>PreparedRequest\<close> for the next request of a redirect chain, which a session
  stores when it is told not to follow redirects; it is never a string.
\<close>

record response =
  status_code :: int
  content_text :: string
  json_body :: "error + json"
  next_link :: "prepared_request option"

text \<open>
  The transport is a parameter: from its own state and a request it gives a response
  or raises, and moves to a new state. It stands for \<^verbatim>\<open>requests.request\<close> once its
  arguments are bound, so an option that \<^verbatim>\<open>requests\<close> does not know is the
  transport's to refuse. The world holds that state, the requests handed to the
  transport so far (oldest first) and the lines logged at error level.
\<close>

type_synonym 's transport = "'s \<Rightarrow> http_request \<Rightarrow> (error + response) \<times> 's"

record 's world =
  server :: 's
  sent :: "http_request list"
  logged :: "string list"

text \<open>What \<^verbatim>\<open>_request\<close> returns: the empty dictionary, or the response object.\<close>

datatype result = EmptyMapping | Raw response

subsection \<open>\<^verbatim>\<open>_request\<close>\<close>

text \<open>
  \<^verbatim>\<open>Response.raise_for_status\<close> of \<^verbatim>\<open>requests\<close>: it raises for a status of 400 to 599
  and returns \<^verbatim>\<open>None\<close> for every other.
\<close>

definition raise_for_status :: "response \<Rightarrow> error option" where
  "raise_for_status response =
     (if 400 \<le> status_code response \<and> status_code response < 600
      then Some (HTTPError (status_code response) (content_text response))
      else None)"

text \<open>
  Python binds keyword arguments by name. A caller's \<^verbatim>\<open>**kwargs\<close> that names
  \<^verbatim>\<open>self\<close>, \<^verbatim>\<open>method\<close> or \<^verbatim>\<open>data\<close> gives \<^verbatim>\<open>_request\<close> a parameter twice, and one
  that names \<^verbatim>\<open>method\<close>, \<^verbatim>\<open>url\<close>, \<^verbatim>\<open>headers\<close> or \<^verbatim>\<open>data\<close> does so to \<^verbatim>\<open>requests.request\<close>:
  both calls raise \<open>TypeError\<close>.
\<close>

definition names_parameter :: "string list \<Rightarrow> (string \<times> json) list \<Rightarrow> bool" where
  "names_parameter params kwargs = (\<exists>k \<in> set params. k \<in> fst ` set kwargs)"

text \<open>Lines 71-82: error classification and the 204 short cut.\<close>

definition classify :: "client \<Rightarrow> response \<Rightarrow> 's world \<Rightarrow> (error + result) \<times> 's world" where
  "classify self response w =
     (if status_code response > 299
         \<and> status_code response \<notin> set (ignored_status_codes self)
      then
        (let w' = w\<lparr>logged := logged w @
                   [''Status code: '' @ str_of_int (status_code response)
                    @ '', Content: '' @ content_text response]\<rparr>
         in case raise_for_status response of
              Some e \<Rightarrow> (Inl e, w')
            | None \<Rightarrow>
                if status_code response = 204 then (Inr EmptyMapping, w')
                else (Inr (Raw response), w'))
      else if status_code response = 204 then (Inr EmptyMapping, w)
      else (Inr (Raw response), w))"

text \<open>Lines 61-70: the request handed to \<^verbatim>\<open>requests.request\<close> for a built URL.\<close>

definition prepare :: "client \<Rightarrow> string \<Rightarrow> json \<Rightarrow> string \<Rightarrow> (string \<times> json) list \<Rightarrow> http_request" where
  "prepare self method data url kwargs =
     (let prefix = (if urlparse_query url \<noteq> [] then ''&'' else ''?'');
          headers = [(''Content-Type'', ''application/json'')];
          data' = json_dumps data
      in \<lparr>req_method = method,
          req_url = url @ prefix @ ''token='' @ api_key self,
          req_headers = headers,
          req_data = data',
          req_kwargs = kwargs\<rparr>)"

definition request ::
  "'s transport \<Rightarrow> client \<Rightarrow> string \<Rightarrow> json \<Rightarrow> segment list \<Rightarrow> (string \<times> json) list
     \<Rightarrow> 's world \<Rightarrow> (error + result) \<times> 's world" where
  "request send self method data segments kwargs w =
     (if names_parameter [''self'', ''method'', ''data''] kwargs then (Inl TypeError, w)
      else case build_url segments of
        Inl e \<Rightarrow> (Inl e, w)
      | Inr url \<Rightarrow>
          if names_parameter [''url'', ''headers''] kwargs then (Inl TypeError, w)
          else
            (let req = prepare self method data url kwargs;
                 (r, s') = send (server w) req;
                 w' = w\<lparr>server := s', sent := sent w @ [req]\<rparr>
             in case r of
                  Inl e \<Rightarrow> (Inl e, w')
                | Inr response \<Rightarrow> classify self response w'))"

subsection \<open>The generic verbs (lines 19-41)\<close>

text \<open>
  \<^verbatim>\<open>get(*segments, **kwargs)\<close> calls \<^verbatim>\<open>self._request("get", *segments, **kwargs)\<close>,
  and the parameters of \<^verbatim>\<open>_request\<close> are \<^verbatim>\<open>method, data=None, *segments\<close>: Python binds
  the first positional argument after the method to \<^verbatim>\<open>data\<close> and the rest to
  \<^verbatim>\<open>segments\<close>. With no positional argument, \<^verbatim>\<open>data\<close> is the keyword argument of
  that name when there is one, and \<^verbatim>\<open>None\<close> otherwise. A string or an integer is a
  JSON value as it is; a \<^verbatim>\<open>PreparedRequest\<close> is none, and \<^verbatim>\<open>json.dumps\<close> on line 64
  raises \<open>TypeError\<close> for it, after the URL has been built and before anything is
  sent.
\<close>

fun as_data :: "segment \<Rightarrow> json option" where
  "as_data (Str s) = Some (JStr s)"
| "as_data (Num n) = Some (JNum n)"
| "as_data (Prepared p) = None"

definition verb ::
  "'s transport \<Rightarrow> client \<Rightarrow> string \<Rightarrow> segment list \<Rightarrow> (string \<times> json) list
     \<Rightarrow> 's world \<Rightarrow> (error + result) \<times> 's world" where
  "verb send self method segments kwargs w =
     (case segments of
        [] \<Rightarrow>
          request send self method
            (case map_of kwargs ''data'' of None \<Rightarrow> JNull | Some d \<Rightarrow> d) []
            (filter (\<lambda>kv. fst kv \<noteq> ''data'') kwargs) w
      | first # rest \<Rightarrow>
          (case as_data first of
             Some data \<Rightarrow> request send self method data rest kwargs w
           | None \<Rightarrow>
               if names_parameter [''self'', ''method'', ''data''] kwargs then (Inl TypeError, w)
               else (case build_url rest of
                       Inl e \<Rightarrow> (Inl e, w)
                     | Inr url \<Rightarrow> (Inl TypeError, w))))"

definition get ::
  "'s transport \<Rightarrow> client \<Rightarrow> segment list \<Rightarrow> (string \<times> json) list
     \<Rightarrow> 's world \<Rightarrow> (error + result) \<times> 's world" where
  "get send self segments kwargs w = verb send self ''get'' segments kwargs w"

definition post ::
  "'s transport \<Rightarrow> client \<Rightarrow> segment list \<Rightarrow> (string \<times> json) list
     \<Rightarrow> 's world \<Rightarrow> (error + result) \<times> 's world" where
  "post send self segments kwargs w = verb send self ''post'' segments kwargs w"

definition put ::
  "'s transport \<Rightarrow> client \<Rightarrow> segment list \<Rightarrow> (string \<times> json) list
     \<Rightarrow> 's world \<Rightarrow> (error + result) \<times> 's world" where
  "put send self segments kwargs w = verb send self ''put'' segments kwargs w"

definition delete ::
  "'s transport \<Rightarrow> client \<Rightarrow> segment list \<Rightarrow> (string \<times> json) list
     \<Rightarrow> 's world \<Rightarrow> (error + result) \<times> 's world" where
  "delete send self segments kwargs w = verb send self ''delete'' segments kwargs w"

subsection \<open>The action helpers (lines 88-147)\<close>

text \<open>
  \<^verbatim>\<open>result.json()\<close>: the dictionary \<^verbatim>\<open>{}\<close> that \<^verbatim>\<open>_request\<close> returns for a 204 has no
  such attribute.
\<close>

fun result_json :: "result \<Rightarrow> error + json" where
  "result_json EmptyMapping = Inl AttributeError"
| "result_json (Raw response) = json_body response"

definition decoded :: "(error + result) \<times> 's world \<Rightarrow> (error + json) \<times> 's world" where
  "decoded rw =
     (case rw of
        (Inl e, w) \<Rightarrow> (Inl e, w)
      | (Inr result, w) \<Rightarrow> (result_json result, w))"

definition create_item ::
  "'s transport \<Rightarrow> client \<Rightarrow> json \<Rightarrow> segment list \<Rightarrow> (string \<times> json) list
     \<Rightarrow> 's world \<Rightarrow> (error + json) \<times> 's world" where
  "create_item send self data segments kwargs w =
     decoded (request send self ''post'' data segments kwargs w)"

definition delete_item ::
  "'s transport \<Rightarrow> client \<Rightarrow> segment list \<Rightarrow> (string \<times> json) list
     \<Rightarrow> 's world \<Rightarrow> (error + result) \<times> 's world" where
  "delete_item send self segments kwargs w =
     request send self ''delete'' JNull segments kwargs w"

definition get_item ::
  "'s transport \<Rightarrow> client \<Rightarrow> segment list \<Rightarrow> (string \<times> json) list
     \<Rightarrow> 's world \<Rightarrow> (error + json) \<times> 's world" where
  "get_item send self segments kwargs w =
     decoded (request send self ''get'' JNull segments kwargs w)"

definition update_item ::
  "'s transport \<Rightarrow> client \<Rightarrow> json \<Rightarrow> segment list \<Rightarrow> (string \<times> json) list
     \<Rightarrow> 's world \<Rightarrow> (error + json) \<times> 's world" where
  "update_item send self data segments kwargs w =
     decoded (request send self ''put'' data segments kwargs w)"

text \<open>
  \<^verbatim>\<open>items.extend(result.json())\<close>: \<^verbatim>\<open>extend\<close> is looked up on \<^verbatim>\<open>items\<close> first (only a
  list has it), then the argument is evaluated, then it is iterated: a list gives
  its items, a dictionary its keys, a string its characters, and nothing else can
  be iterated.
\<close>

fun iterate :: "json \<Rightarrow> error + json list" where
  "iterate (JArr ys) = Inr ys"
| "iterate (JObj kvs) = Inr (map (\<lambda>kv. JStr (fst kv)) kvs)"
| "iterate (JStr s) = Inr (map (\<lambda>c. JStr [c]) s)"
| "iterate v = Inl TypeError"

definition extend :: "json \<Rightarrow> result \<Rightarrow> error + json" where
  "extend items result =
     (case items of
        JArr xs \<Rightarrow>
          (case result_json result of
             Inl e \<Rightarrow> Inl e
           | Inr v \<Rightarrow> (case iterate v of Inl e \<Rightarrow> Inl e | Inr ys \<Rightarrow> Inr (JArr (xs @ ys))))
      | _ \<Rightarrow> Inl AttributeError)"

text \<open>
  The truth value of \<^verbatim>\<open>result.next\<close>: \<^verbatim>\<open>None\<close> is false, and a \<^verbatim>\<open>PreparedRequest\<close>
  (which defines neither \<^verbatim>\<open>__bool__\<close> nor \<^verbatim>\<open>__len__\<close>) is true.
\<close>

fun truthy :: "prepared_request option \<Rightarrow> bool" where
  "truthy None = False"
| "truthy (Some p) = True"

text \<open>
  The \<^verbatim>\<open>while result.next\<close> loop of \<^verbatim>\<open>_list_items\<close>. Nothing bounds the number of
  pages a server may announce, so the loop is a partial function: \<open>None\<close> is the run
  that never ends. Inside the loop \<^verbatim>\<open>result\<close> is always a response, since
  \<^verbatim>\<open>result.json()\<close> succeeded on it. The loop passes \<^verbatim>\<open>result.next\<close> to \<^verbatim>\<open>_request\<close> as
  the only path segment.
\<close>

partial_function (option) list_loop ::
  "'s transport \<Rightarrow> client \<Rightarrow> (string \<times> json) list \<Rightarrow> response \<Rightarrow> json \<Rightarrow> 's world
     \<Rightarrow> ((error + json) \<times> 's world) option" where
  "list_loop send self kwargs result items w =
     (case next_link result of
        None \<Rightarrow> Some (Inr items, w)
      | Some following \<Rightarrow>
          if \<not> truthy (Some following) then Some (Inr items, w)
          else
            (case request send self ''get'' JNull [Prepared following] kwargs w of
               (Inl e, w') \<Rightarrow> Some (Inl e, w')
             | (Inr result', w') \<Rightarrow>
                 (case extend items result' of
                    Inl e \<Rightarrow> Some (Inl e, w')
                  | Inr items' \<Rightarrow>
                      (case result' of
                         EmptyMapping \<Rightarrow> Some (Inl AttributeError, w')
                       | Raw response \<Rightarrow> list_loop send self kwargs response items' w'))))"

definition list_items ::
  "'s transport \<Rightarrow> client \<Rightarrow> segment list \<Rightarrow> (string \<times> json) list \<Rightarrow> 's world
     \<Rightarrow> ((error + json) \<times> 's world) option" where
  "list_items send self segments kwargs w =
     (case request send self ''get'' JNull segments kwargs w of
        (Inl e, w') \<Rightarrow> Some (Inl e, w')
      | (Inr EmptyMapping, w') \<Rightarrow> Some (Inl AttributeError, w')
      | (Inr (Raw response), w') \<Rightarrow>
          (case json_body response of
             Inl e \<Rightarrow> Some (Inl e, w')
           | Inr items \<Rightarrow> list_loop send self kwargs response items w'))"

subsection \<open>Milestones (lines 153-256)\<close>

text \<open>
  Each facade has parameters of its own before \<^verbatim>\<open>**kwargs\<close>, which the caller passes
  by position: a keyword argument of the same name gives the facade that parameter
  twice, and Python raises \<open>TypeError\<close> at the call, before the body runs.
\<close>

definition create_milestone ::
  "'s transport \<Rightarrow> client \<Rightarrow> json \<Rightarrow> (string \<times> json) list
     \<Rightarrow> 's world \<Rightarrow> (error + json) \<times> 's world" where
  "create_milestone send self data kwargs w =
     (if names_parameter [''self'', ''data''] kwargs then (Inl TypeError, w)
      else create_item send self data [Str ''milestones''] kwargs w)"

definition delete_milestone ::
  "'s transport \<Rightarrow> client \<Rightarrow> segment \<Rightarrow> (string \<times> json) list
     \<Rightarrow> 's world \<Rightarrow> (error + result) \<times> 's world" where
  "delete_milestone send self ident kwargs w =
     (if names_parameter [''self'', ''id''] kwargs then (Inl TypeError, w)
      else delete_item send self [Str ''milestones'', ident] kwargs w)"

definition get_milestone ::
  "'s transport \<Rightarrow> client \<Rightarrow> segment \<Rightarrow> (string \<times> json) list
     \<Rightarrow> 's world \<Rightarrow> (error + json) \<times> 's world" where
  "get_milestone send self ident kwargs w =
     (if names_parameter [''self'', ''id''] kwargs then (Inl TypeError, w)
      else get_item send self [Str ''milestones'', ident] kwargs w)"

definition list_milestone_epics ::
  "'s transport \<Rightarrow> client \<Rightarrow> segment \<Rightarrow> (string \<times> json) list \<Rightarrow> 's world
     \<Rightarrow> ((error + json) \<times> 's world) option" where
  "list_milestone_epics send self ident kwargs w =
     (if names_parameter [''self'', ''id''] kwargs then Some (Inl TypeError, w)
      else list_items send self [Str ''milestones'', ident, Str ''epics''] kwargs w)"

definition list_milestones ::
  "'s transport \<Rightarrow> client \<Rightarrow> (string \<times> json) list \<Rightarrow> 's world
     \<Rightarrow> ((error + json) \<times> 's world) option" where
  "list_milestones send self kwargs w =
     (if names_parameter [''self''] kwargs then Some (Inl TypeError, w)
      else list_items send self [Str ''milestones''] kwargs w)"

definition update_milestone ::
  "'s transport \<Rightarrow> client \<Rightarrow> segment \<Rightarrow> json \<Rightarrow> (string \<times> json) list
     \<Rightarrow> 's world \<Rightarrow> (error + json) \<times> 's world" where
  "update_milestone send self ident data kwargs w =
     (if names_parameter [''self'', ''id'', ''data''] kwargs then (Inl TypeError, w)
      else update_item send self data [Str ''milestones'', ident] kwargs w)"

subsection \<open>A scripted transport\<close>

text \<open>
  A transport for concrete runs: it answers the requests it receives with the
  responses of a script, in order, and raises when the script is used up.
\<close>

fun scripted :: "response list \<Rightarrow> http_request \<Rightarrow> (error + response) \<times> response list" where
  "scripted [] req = (Inl (TransportError ''connection refused''), [])"
| "scripted (r # rs) req = (Inr r, rs)"

text \<open>Keyword arguments that reach the transport: they name no parameter twice.\<close>

definition transport_options :: "(string \<times> json) list \<Rightarrow> bool" where
  "transport_options kwargs =
     (\<not> names_parameter [''self'', ''method'', ''data''] kwargs
      \<and> \<not> names_parameter [''url'', ''headers''] kwargs)"

subsection \<open>Vocabulary of the properties\<close>

text \<open>
  The number of positions of a string at which a given pattern occurs (for
  \<open>ENDPOINT_PATH\<close> two occurrences cannot overlap, so these are its copies).
\<close>

fun count_sub :: "string \<Rightarrow> string \<Rightarrow> nat" where
  "count_sub p [] = (if p = [] then 1 else 0)"
| "count_sub p (c # cs) = (if startswith (c # cs) p then 1 else 0) + count_sub p cs"

text \<open>
  The caller's segments joined on their own, \<^verbatim>\<open>os.path.join("", *[str(s).strip("/")
  for s in segments])\<close>: the part of the path that comes from the caller.
\<close>

definition rel_path :: "segment list \<Rightarrow> string" where
  "rel_path segments = path_join [] (map (\<lambda>s. strip_slashes (str s)) segments)"

section \<open>Properties\<close>

subsection \<open>Dispatch\<close>

lemma request_dispatch:
  assumes "transport_options kwargs"
    and "build_url segments = Inr url"
    and "send (server w) (prepare self method data url kwargs) = (r, s')"
  shows "request send self method data segments kwargs w =
           (case r of
              Inl e \<Rightarrow> (Inl e, w\<lparr>server := s', sent := sent w @ [prepare self method data url kwargs]\<rparr>)
            | Inr response \<Rightarrow>
                classify self response
                  (w\<lparr>server := s', sent := sent w @ [prepare self method data url kwargs]\<rparr>))"
  using assms by (simp add: request_def transport_options_def Let_def)

lemma classify_204:
  "status_code response = 204 \<Longrightarrow> classify self response w = (Inr EmptyMapping, w)"
  by (simp add: classify_def)

text \<open>
  C6. When the response to a dispatched request has status code 204, \<^verbatim>\<open>_request\<close>
  returns the empty mapping: whatever the body text, whatever \<^verbatim>\<open>json()\<close> would give
  or raise on it (it is never called), and whatever the ignored status codes are.
  The request has been sent and nothing is logged.
\<close>

theorem request_204_empty_mapping:
  assumes "transport_options kwargs"
    and "build_url segments = Inr url"
    and "send (server w) (prepare self method data url kwargs) = (Inr response, s')"
    and "status_code response = 204"
  shows "request send self method data segments kwargs w =
           (Inr EmptyMapping,
            w\<lparr>server := s', sent := sent w @ [prepare self method data url kwargs]\<rparr>)"
  using assms by (simp add: request_dispatch classify_204)

lemmas eval_url =
  build_url_def ENDPOINT_PATH_def ENDPOINT_HOST_def path_join_def join_step_def
  strip_slashes_def str_of_int_def digits_of.simps digit_char_def

lemmas eval_prepare =
  prepare_def urlparse_query_def ClubhouseClient_def dumps_string_def escape_char_def
  str_of_int_def digits_of.simps digit_char_def

lemma transport_options_Nil: "transport_options []"
  by (simp add: transport_options_def names_parameter_def)

lemma build_url_milestone_123:
  "build_url [Str ''milestones'', Num 123] = Inr ''https://api.clubhouse.io/api/v3/milestones/123''"
  by (simp add: eval_url)

theorem request_204_empty_mapping_witness:
  "transport_options []
   \<and> build_url [Str ''milestones'', Num 123] = Inr ''https://api.clubhouse.io/api/v3/milestones/123''
   \<and> status_code \<lparr>status_code = 204, content_text = ''<html>'', json_body = Inl JSONDecodeError,
        next_link = None\<rparr> = 204
   \<and> request scripted (ClubhouseClient ''KEY'' (Some [404])) ''put'' (JObj [(''name'', JStr ''Q3'')])
         [Str ''milestones'', Num 123] []
         \<lparr>server = [\<lparr>status_code = 204, content_text = ''<html>'',
                      json_body = Inl JSONDecodeError, next_link = None\<rparr>],
          sent = [], logged = []\<rparr>
       = (Inr EmptyMapping,
          \<lparr>server = [],
           sent = [\<lparr>req_method = ''put'',
                    req_url = ''https://api.clubhouse.io/api/v3/milestones/123?token=KEY'',
                    req_headers = [(''Content-Type'', ''application/json'')],
                    req_data = [CHR ''{'', CHR 0x22] @ ''name'' @ [CHR 0x22] @ '': '' @ [CHR 0x22]
                               @ ''Q3'' @ [CHR 0x22, CHR ''}''],
                    req_kwargs = []\<rparr>],
           logged = []\<rparr>)"
proof -
  let ?r = "\<lparr>status_code = 204, content_text = ''<html>'', json_body = Inl JSONDecodeError,
             next_link = None\<rparr>"
  let ?self = "ClubhouseClient ''KEY'' (Some [404])"
  let ?url = "''https://api.clubhouse.io/api/v3/milestones/123''"
  let ?w = "\<lparr>server = [?r], sent = [], logged = []\<rparr>"
  have sends: "scripted (server ?w) (prepare ?self ''put'' (JObj [(''name'', JStr ''Q3'')]) ?url [])
                 = (Inr ?r, [])"
    by simp
  have "status_code ?r = 204"
    by simp
  from request_204_empty_mapping [where send = scripted and w = ?w, OF transport_options_Nil
      build_url_milestone_123 sends this]
  show ?thesis
    by (simp add: transport_options_Nil build_url_milestone_123 eval_prepare)
qed

subsection \<open>Error classification\<close>

lemma classify_not_above_299:
  "status_code response \<le> 299 \<Longrightarrow>
   classify self response w =
     (Inr (if status_code response = 204 then EmptyMapping else Raw response), w)"
  by (simp add: classify_def)

lemma classify_ignored:
  "status_code response \<in> set (ignored_status_codes self) \<Longrightarrow>
   classify self response w =
     (Inr (if status_code response = 204 then EmptyMapping else Raw response), w)"
  by (simp add: classify_def)

lemma classify_raises:
  assumes "400 \<le> status_code response" and "status_code response < 600"
    and "status_code response \<notin> set (ignored_status_codes self)"
  shows "classify self response w =
           (Inl (HTTPError (status_code response) (content_text response)),
            w\<lparr>logged := logged w @
                 [''Status code: '' @ str_of_int (status_code response)
                  @ '', Content: '' @ content_text response]\<rparr>)"
  using assms by (simp add: classify_def raise_for_status_def)

lemma classify_logged_not_raised:
  assumes "299 < status_code response"
    and "status_code response < 400 \<or> 600 \<le> status_code response"
    and "status_code response \<notin> set (ignored_status_codes self)"
  shows "classify self response w =
           (Inr (Raw response),
            w\<lparr>logged := logged w @
                 [''Status code: '' @ str_of_int (status_code response)
                  @ '', Content: '' @ content_text response]\<rparr>)"
  using assms by (auto simp add: classify_def raise_for_status_def)

text \<open>
  What holds of the error classification: a response whose status is at most 299
  or among the ignored status codes raises nothing and logs nothing, and one whose
  status is between 400 and 599 and not ignored is logged and raised as an HTTP
  failure with that status and body.
\<close>

theorem no_failure_when_low_or_ignored:
  assumes "transport_options kwargs" and "build_url segments = Inr url"
    and "send (server w) (prepare self meth data url kwargs) = (Inr response, s')"
    and "status_code response \<le> 299 \<or> status_code response \<in> set (ignored_status_codes self)"
  shows "request send self meth data segments kwargs w =
           (Inr (if status_code response = 204 then EmptyMapping else Raw response),
            w\<lparr>server := s', sent := sent w @ [prepare self meth data url kwargs]\<rparr>)"
  using assms by (auto simp add: request_dispatch classify_not_above_299 classify_ignored)

theorem no_failure_when_low_or_ignored_witness:
  "request scripted (ClubhouseClient ''KEY'' (Some [404])) ''get'' JNull
     [Str ''milestones'', Num 123] []
     \<lparr>server = [\<lparr>status_code = 404, content_text = ''gone'', json_body = Inl JSONDecodeError,
                  next_link = None\<rparr>],
      sent = [], logged = []\<rparr>
   = (Inr (Raw \<lparr>status_code = 404, content_text = ''gone'', json_body = Inl JSONDecodeError,
                 next_link = None\<rparr>),
      \<lparr>server = [],
       sent = [\<lparr>req_method = ''get'',
                req_url = ''https://api.clubhouse.io/api/v3/milestones/123?token=KEY'',
                req_headers = [(''Content-Type'', ''application/json'')],
                req_data = ''null'',
                req_kwargs = []\<rparr>],
       logged = []\<rparr>)"
proof -
  let ?r = "\<lparr>status_code = 404, content_text = ''gone'', json_body = Inl JSONDecodeError,
             next_link = None\<rparr>"
  from no_failure_when_low_or_ignored [where send = scripted
      and self = "ClubhouseClient ''KEY'' (Some [404])" and meth = "''get''" and data = JNull
      and kwargs = "[]" and w = "\<lparr>server = [?r], sent = [], logged = []\<rparr>"
      and response = ?r and s' = "[]", OF transport_options_Nil build_url_milestone_123]
  show ?thesis
    by (simp add: eval_prepare)
qed

theorem failure_for_400_to_599:
  assumes "transport_options kwargs" and "build_url segments = Inr url"
    and "send (server w) (prepare self meth data url kwargs) = (Inr response, s')"
    and "400 \<le> status_code response" and "status_code response < 600"
    and "status_code response \<notin> set (ignored_status_codes self)"
  shows "request send self meth data segments kwargs w =
           (Inl (HTTPError (status_code response) (content_text response)),
            w\<lparr>server := s', sent := sent w @ [prepare self meth data url kwargs],
              logged := logged w @
                [''Status code: '' @ str_of_int (status_code response)
                 @ '', Content: '' @ content_text response]\<rparr>)"
  using assms by (simp add: request_dispatch classify_raises)

theorem failure_for_400_to_599_witness:
  "request scripted (ClubhouseClient ''KEY'' None) ''get'' JNull
     [Str ''milestones'', Num 123] []
     \<lparr>server = [\<lparr>status_code = 404, content_text = ''gone'', json_body = Inl JSONDecodeError,
                  next_link = None\<rparr>],
      sent = [], logged = []\<rparr>
   = (Inl (HTTPError 404 ''gone''),
      \<lparr>server = [],
       sent = [\<lparr>req_method = ''get'',
                req_url = ''https://api.clubhouse.io/api/v3/milestones/123?token=KEY'',
                req_headers = [(''Content-Type'', ''application/json'')],
                req_data = ''null'',
                req_kwargs = []\<rparr>],
       logged = [''Status code: 404, Content: gone'']\<rparr>)"
proof -
  let ?r = "\<lparr>status_code = 404, content_text = ''gone'', json_body = Inl JSONDecodeError,
             next_link = None\<rparr>"
  from failure_for_400_to_599 [where send = scripted
      and self = "ClubhouseClient ''KEY'' None" and meth = "''get''" and data = JNull
      and kwargs = "[]" and w = "\<lparr>server = [?r], sent = [], logged = []\<rparr>"
      and response = ?r and s' = "[]", OF transport_options_Nil build_url_milestone_123]
  show ?thesis
    by (simp add: eval_prepare)
qed

text \<open>
  C1. A response with status 302 that is not among the ignored status codes: the
  status and the body are logged, but \<^verbatim>\<open>raise_for_status\<close> raises for 400 to 599
  only, so no HTTP failure is raised and \<^verbatim>\<open>_request\<close> returns the response.
\<close>

theorem request_302_logged_not_raised:
  "request scripted (ClubhouseClient ''KEY'' None) ''get'' JNull [Str ''milestones''] []
     \<lparr>server = [\<lparr>status_code = 302, content_text = ''moved'', json_body = Inl JSONDecodeError,
                  next_link = None\<rparr>],
      sent = [], logged = []\<rparr>
   = (Inr (Raw \<lparr>status_code = 302, content_text = ''moved'', json_body = Inl JSONDecodeError,
                 next_link = None\<rparr>),
      \<lparr>server = [],
       sent = [\<lparr>req_method = ''get'',
                req_url = ''https://api.clubhouse.io/api/v3/milestones?token=KEY'',
                req_headers = [(''Content-Type'', ''application/json'')],
                req_data = ''null'',
                req_kwargs = []\<rparr>],
       logged = [''Status code: 302, Content: moved'']\<rparr>)"
  by (simp add: request_def names_parameter_def classify_def raise_for_status_def
      eval_url eval_prepare)

subsection \<open>The generic verbs\<close>

text \<open>
  C2. \<^verbatim>\<open>get("milestones")\<close> reaches \<^verbatim>\<open>_request\<close> with \<^verbatim>\<open>data = "milestones"\<close> and no
  segment, and fails with \<open>IndexError\<close> before anything is sent;
  \<^verbatim>\<open>get("milestones", "epics")\<close> sends a request for the path \<^verbatim>\<open>/api/v3/epics\<close> whose
  body is the JSON string \<^verbatim>\<open>"milestones"\<close>. The first segment is taken as the
  payload, not as part of the path.
\<close>

theorem get_takes_first_segment_as_data:
  "get scripted (ClubhouseClient ''KEY'' None) [Str ''milestones''] []
     \<lparr>server = [\<lparr>status_code = 200, content_text = ''[]'', json_body = Inr (JArr []),
                  next_link = None\<rparr>],
      sent = [], logged = []\<rparr>
   = (Inl IndexError,
      \<lparr>server = [\<lparr>status_code = 200, content_text = ''[]'', json_body = Inr (JArr []),
                   next_link = None\<rparr>],
       sent = [], logged = []\<rparr>)
   \<and> get scripted (ClubhouseClient ''KEY'' None) [Str ''milestones'', Str ''epics''] []
       \<lparr>server = [\<lparr>status_code = 200, content_text = ''[]'', json_body = Inr (JArr []),
                    next_link = None\<rparr>],
        sent = [], logged = []\<rparr>
     = (Inr (Raw \<lparr>status_code = 200, content_text = ''[]'', json_body = Inr (JArr []),
                   next_link = None\<rparr>),
        \<lparr>server = [],
         sent = [\<lparr>req_method = ''get'',
                  req_url = ''https://api.clubhouse.io/api/v3/epics?token=KEY'',
                  req_headers = [(''Content-Type'', ''application/json'')],
                  req_data = [CHR 0x22] @ ''milestones'' @ [CHR 0x22],
                  req_kwargs = []\<rparr>],
         logged = []\<rparr>)"
  by (simp add: get_def verb_def request_def names_parameter_def classify_def
      eval_url eval_prepare)

subsection \<open>URL construction\<close>

text \<open>
  C8. A numeric first segment is not stringified: \<^verbatim>\<open>segments[0].startswith\<close> is
  evaluated before \<^verbatim>\<open>str(s)\<close> is applied, and raises \<open>AttributeError\<close>. No URL is
  built and nothing is sent, here for \<^verbatim>\<open>_get_item(123)\<close>.
\<close>

theorem numeric_first_segment_raises:
  "build_url [Num 123] = Inl AttributeError
   \<and> get_item scripted (ClubhouseClient ''KEY'' None) [Num 123] []
       \<lparr>server = [\<lparr>status_code = 200, content_text = ''{}'', json_body = Inr (JObj []),
                    next_link = None\<rparr>],
        sent = [], logged = []\<rparr>
     = (Inl AttributeError,
        \<lparr>server = [\<lparr>status_code = 200, content_text = ''{}'', json_body = Inr (JObj []),
                     next_link = None\<rparr>],
         sent = [], logged = []\<rparr>)"
  by (simp add: get_item_def decoded_def request_def names_parameter_def build_url_def)

text \<open>
  Where the first segment is a string, every segment is stringified and stripped
  of its slashes, an integer in a later position included.
\<close>

lemma build_url_string_first:
  "build_url (Str s # rest) =
     Inr (path_join ENDPOINT_HOST
            (map (\<lambda>x. strip_slashes (str x))
               (if startswith s ENDPOINT_PATH then Str s # rest
                else Str ENDPOINT_PATH # Str s # rest)))"
  by (simp add: build_url_def)

lemma startswith_slash: "startswith b ''/'' \<longleftrightarrow> b \<noteq> [] \<and> hd b = CHR ''/''"
  by (cases b) auto

lemma rstrip_split: "rev (dropWhile P (rev xs)) @ rev (takeWhile P (rev xs)) = xs"
proof -
  have "rev (dropWhile P (rev xs)) @ rev (takeWhile P (rev xs))
          = rev (takeWhile P (rev xs) @ dropWhile P (rev xs))"
    by (simp only: rev_append)
  also have "\<dots> = rev (rev xs)"
    by (simp only: takeWhile_dropWhile_id)
  also have "\<dots> = xs"
    by simp
  finally show ?thesis .
qed

lemma rstrip_hd:
  assumes "rev (dropWhile P (rev xs)) \<noteq> []"
  shows "xs \<noteq> [] \<and> hd (rev (dropWhile P (rev xs))) = hd xs"
proof -
  obtain r where r: "r = rev (dropWhile P (rev xs))"
    by simp
  obtain t where t: "t = rev (takeWhile P (rev xs))"
    by simp
  have xs: "xs = r @ t"
    unfolding r t by (rule rstrip_split [symmetric])
  from assms r have "r \<noteq> []"
    by simp
  with xs have "xs \<noteq> [] \<and> hd r = hd xs"
    by simp
  then show ?thesis
    unfolding r .
qed

lemma strip_slashes_no_leading_slash: "\<not> startswith (strip_slashes s) ''/''"
proof
  assume "startswith (strip_slashes s) ''/''"
  then have ne: "strip_slashes s \<noteq> []" and hd: "hd (strip_slashes s) = CHR ''/''"
    by (simp_all add: startswith_slash)
  from ne have d: "dropWhile (\<lambda>c. c = CHR ''/'') s \<noteq> []
      \<and> hd (strip_slashes s) = hd (dropWhile (\<lambda>c. c = CHR ''/'') s)"
    unfolding strip_slashes_def by (rule rstrip_hd)
  then have "hd (dropWhile (\<lambda>c. c = CHR ''/'') s) \<noteq> CHR ''/''"
    using hd_dropWhile [of "\<lambda>c. c = CHR ''/''" s] by blast
  with d hd show False
    by simp
qed

lemma join_step_append:
  assumes "\<not> startswith b ''/''" and "q = [] \<longrightarrow> p = [] \<or> last p = CHR ''/''"
  shows "join_step (p @ q) b = p @ join_step q b"
  using assms by (cases "q = []") (auto simp add: join_step_def)

lemma foldl_join_step_append:
  assumes "\<forall>b \<in> set bs. \<not> startswith b ''/''"
    and "q = [] \<longrightarrow> p = [] \<or> last p = CHR ''/''"
  shows "foldl join_step (p @ q) bs = p @ foldl join_step q bs"
  using assms
proof (induction bs arbitrary: q)
  case Nil
  then show ?case by simp
next
  case (Cons b bs)
  from Cons.prems have b: "\<not> startswith b ''/''"
    by simp
  have step: "join_step (p @ q) b = p @ join_step q b"
    using b Cons.prems(2) by (rule join_step_append)
  have keep: "join_step q b = [] \<longrightarrow> p = [] \<or> last p = CHR ''/''"
    using b Cons.prems(2) by (auto simp add: join_step_def split: if_splits)
  from Cons.prems(1) have rest: "\<forall>b \<in> set bs. \<not> startswith b ''/''"
    by simp
  show ?case
    using Cons.IH [OF rest keep] step by simp
qed

lemma path_join_host:
  "path_join (h @ [c]) (map (\<lambda>x. strip_slashes (str x)) (x # xs)) =
     (if c = CHR ''/'' then h @ [c] @ rel_path (x # xs) else h @ [c] @ ''/'' @ rel_path (x # xs))"
proof -
  let ?f = "\<lambda>x. strip_slashes (str x)"
  have nolead: "\<forall>b \<in> set (map ?f xs). \<not> startswith b ''/''"
    by (simp add: strip_slashes_no_leading_slash)
  have first: "\<not> startswith (?f x) ''/''"
    by (rule strip_slashes_no_leading_slash)
  have rel: "rel_path (x # xs) = foldl join_step (?f x) (map ?f xs)"
    using first by (simp add: rel_path_def path_join_def join_step_def)
  show ?thesis
  proof (cases "c = CHR ''/''")
    case True
    have "foldl join_step ((h @ [c]) @ ?f x) (map ?f xs) = (h @ [c]) @ foldl join_step (?f x) (map ?f xs)"
      using nolead by (rule foldl_join_step_append) (simp add: True)
    then show ?thesis
      using first True by (simp add: path_join_def join_step_def rel)
  next
    case False
    have "foldl join_step ((h @ [c] @ ''/'') @ ?f x) (map ?f xs)
            = (h @ [c] @ ''/'') @ foldl join_step (?f x) (map ?f xs)"
      using nolead by (rule foldl_join_step_append) simp
    then show ?thesis
      using first False by (simp add: path_join_def join_step_def rel)
  qed
qed

lemma count_sub_host:
  "count_sub ENDPOINT_PATH (ENDPOINT_HOST @ t) = count_sub ENDPOINT_PATH t"
  by (simp add: ENDPOINT_PATH_def ENDPOINT_HOST_def)

lemma count_sub_prefix:
  "count_sub ENDPOINT_PATH (ENDPOINT_PATH @ t) = 1 + count_sub ENDPOINT_PATH t"
  by (simp add: ENDPOINT_PATH_def)

lemma build_url_prepends:
  assumes "\<not> startswith s ENDPOINT_PATH"
  shows "build_url (Str s # rest) =
           Inr (ENDPOINT_HOST @ ENDPOINT_PATH @ ''/'' @ rel_path (Str s # rest))"
proof -
  have "path_join (''https://api.clubhouse.io/api/v'' @ [CHR ''3''])
          (map (\<lambda>x. strip_slashes (str x)) (Str s # rest))
        = ''https://api.clubhouse.io/api/v'' @ [CHR ''3''] @ ''/'' @ rel_path (Str s # rest)"
    by (simp only: path_join_host) simp
  then show ?thesis
    using assms
    by (simp add: build_url_def path_join_def join_step_def strip_slashes_def
        ENDPOINT_HOST_def ENDPOINT_PATH_def)
qed

lemma build_url_keeps:
  assumes "startswith s ENDPOINT_PATH"
  shows "build_url (Str s # rest) = Inr (ENDPOINT_HOST @ ''/'' @ rel_path (Str s # rest))"
proof -
  have "path_join (''https://api.clubhouse.i'' @ [CHR ''o''])
          (map (\<lambda>x. strip_slashes (str x)) (Str s # rest))
        = ''https://api.clubhouse.i'' @ [CHR ''o''] @ ''/'' @ rel_path (Str s # rest)"
    by (simp only: path_join_host) simp
  then show ?thesis
    using assms by (simp add: build_url_def ENDPOINT_HOST_def)
qed

text \<open>
  C4, as the code has it. The test on line 54 looks at the start of the first
  segment only. When that segment is a string that does not start with
  \<open>ENDPOINT_PATH\<close>, the URL is the host, one copy of the prefix, a slash and the
  caller's segments joined, so the prefix occurs once more often than it does in
  the slash and the joined segments: exactly once when the caller's segments spell
  no copy themselves. When the first segment starts with the prefix, nothing is
  prepended: the URL is the host, a slash and the joined segments, and holds the
  copies the caller wrote and no other.
\<close>

theorem prefix_prepended_once:
  "(\<not> startswith s ENDPOINT_PATH \<longrightarrow>
      build_url (Str s # rest)
        = Inr (ENDPOINT_HOST @ ENDPOINT_PATH @ ''/'' @ rel_path (Str s # rest))
      \<and> count_sub ENDPOINT_PATH (ENDPOINT_HOST @ ENDPOINT_PATH @ ''/'' @ rel_path (Str s # rest))
        = 1 + count_sub ENDPOINT_PATH (''/'' @ rel_path (Str s # rest)))
   \<and> (startswith s ENDPOINT_PATH \<longrightarrow>
      build_url (Str s # rest) = Inr (ENDPOINT_HOST @ ''/'' @ rel_path (Str s # rest))
      \<and> count_sub ENDPOINT_PATH (ENDPOINT_HOST @ ''/'' @ rel_path (Str s # rest))
        = count_sub ENDPOINT_PATH (''/'' @ rel_path (Str s # rest)))"
proof (intro conjI impI)
  assume "\<not> startswith s ENDPOINT_PATH"
  then show "build_url (Str s # rest)
               = Inr (ENDPOINT_HOST @ ENDPOINT_PATH @ ''/'' @ rel_path (Str s # rest))"
    by (rule build_url_prepends)
next
  show "count_sub ENDPOINT_PATH (ENDPOINT_HOST @ ENDPOINT_PATH @ ''/'' @ rel_path (Str s # rest))
          = 1 + count_sub ENDPOINT_PATH (''/'' @ rel_path (Str s # rest))"
    by (simp only: count_sub_host count_sub_prefix)
next
  assume "startswith s ENDPOINT_PATH"
  then show "build_url (Str s # rest) = Inr (ENDPOINT_HOST @ ''/'' @ rel_path (Str s # rest))"
    by (rule build_url_keeps)
next
  show "count_sub ENDPOINT_PATH (ENDPOINT_HOST @ ''/'' @ rel_path (Str s # rest))
          = count_sub ENDPOINT_PATH (''/'' @ rel_path (Str s # rest))"
    by (rule count_sub_host)
qed

theorem prefix_prepended_once_witness:
  "\<not> startswith ''milestones'' ENDPOINT_PATH
   \<and> build_url [Str ''milestones'', Num 123]
       = Inr ''https://api.clubhouse.io/api/v3/milestones/123''
   \<and> count_sub ENDPOINT_PATH ''https://api.clubhouse.io/api/v3/milestones/123'' = 1
   \<and> startswith ''/api/v3/milestones/'' ENDPOINT_PATH
   \<and> build_url [Str ''/api/v3/milestones/'', Num 123]
       = Inr ''https://api.clubhouse.io/api/v3/milestones/123''
   \<and> rel_path [Str ''milestones'', Num 123] = ''milestones/123''
   \<and> rel_path [Str ''/api/v3/milestones/'', Num 123] = ''api/v3/milestones/123''"
  using prefix_prepended_once [of "''milestones''" "[Num 123]"]
    prefix_prepended_once [of "''/api/v3/milestones/''" "[Num 123]"]
  by (simp add: rel_path_def eval_url)

text \<open>
  The claim as stated fails: the first segment \<^verbatim>\<open>"milestones"\<close> does not start with
  the prefix, and with \<^verbatim>\<open>"/api/v3"\<close> as second segment the URL holds two copies.
\<close>

theorem two_copies_of_prefix:
  "\<not> startswith ''milestones'' ENDPOINT_PATH
   \<and> build_url [Str ''milestones'', Str ''/api/v3'']
       = Inr ''https://api.clubhouse.io/api/v3/milestones/api/v3''
   \<and> count_sub ENDPOINT_PATH ''https://api.clubhouse.io/api/v3/milestones/api/v3'' = 2"
  by (simp add: eval_url)

subsection \<open>The request that is sent\<close>

lemma classify_sent: "sent (snd (classify self response w)) = sent w"
  by (simp add: classify_def Let_def split: option.split)

lemma request_sends:
  assumes "transport_options kwargs" and "build_url segments = Inr url"
  shows "sent (snd (request send self meth data segments kwargs w))
           = sent w @ [prepare self meth data url kwargs]"
proof -
  obtain r s' where "send (server w) (prepare self meth data url kwargs) = (r, s')"
    by (cases "send (server w) (prepare self meth data url kwargs)")
  with assms show ?thesis
    by (cases r) (simp_all add: request_dispatch classify_sent)
qed

lemma request_sent_cases:
  "sent (snd (request send self meth data segments kwargs w)) = sent w
   \<or> (\<exists>url. sent (snd (request send self meth data segments kwargs w))
               = sent w @ [prepare self meth data url kwargs])"
proof (cases "transport_options kwargs")
  case True
  show ?thesis
  proof (cases "build_url segments")
    case (Inl e)
    then show ?thesis by (simp add: request_def)
  next
    case (Inr url)
    from request_sends [OF True Inr] show ?thesis by blast
  qed
next
  case False
  then show ?thesis
    by (auto simp add: request_def transport_options_def split: sum.split)
qed

lemma snd_decoded: "snd (decoded rw) = snd rw"
  by (simp add: decoded_def split: prod.split sum.split)

text \<open>
  C5. The URL handed to the transport is the constructed URL followed by
  \<open>?token=\<close> and the API key when \<^verbatim>\<open>urlparse\<close> finds no query in the constructed
  URL (its fifth field is empty), and by \<open>&token=\<close> and the key when it finds
  one.
\<close>

theorem token_separator:
  assumes "transport_options kwargs" and "build_url segments = Inr url"
  shows "\<exists>r. sent (snd (request send self meth data segments kwargs w)) = sent w @ [r]
           \<and> (urlparse_query url = [] \<longrightarrow> req_url r = url @ ''?token='' @ api_key self)
           \<and> (urlparse_query url \<noteq> [] \<longrightarrow> req_url r = url @ ''&token='' @ api_key self)"
  using request_sends [OF assms, where send = send and self = self and meth = meth
      and data = data and w = w]
  by (simp add: prepare_def)

theorem token_separator_witness:
  "transport_options []
   \<and> build_url [Str ''milestones''] = Inr ''https://api.clubhouse.io/api/v3/milestones''
   \<and> urlparse_query ''https://api.clubhouse.io/api/v3/milestones'' = []
   \<and> build_url [Str ''/api/v3/search/stories?page_size=5'']
       = Inr ''https://api.clubhouse.io/api/v3/search/stories?page_size=5''
   \<and> urlparse_query ''https://api.clubhouse.io/api/v3/search/stories?page_size=5'' = ''page_size=5''
   \<and> map req_url
         (sent (snd (request scripted (ClubhouseClient ''KEY'' None) ''get'' JNull
                       [Str ''milestones''] [] \<lparr>server = [], sent = [], logged = []\<rparr>)))
       = [''https://api.clubhouse.io/api/v3/milestones?token=KEY'']
   \<and> map req_url
         (sent (snd (request scripted (ClubhouseClient ''KEY'' None) ''get'' JNull
                       [Str ''/api/v3/search/stories?page_size=5''] []
                       \<lparr>server = [], sent = [], logged = []\<rparr>)))
       = [''https://api.clubhouse.io/api/v3/search/stories?page_size=5&token=KEY'']"
proof -
  have a: "build_url [Str ''milestones''] = Inr ''https://api.clubhouse.io/api/v3/milestones''"
    by (simp add: eval_url)
  have b: "build_url [Str ''/api/v3/search/stories?page_size=5'']
             = Inr ''https://api.clubhouse.io/api/v3/search/stories?page_size=5''"
    by (simp add: eval_url)
  have qa: "urlparse_query ''https://api.clubhouse.io/api/v3/milestones'' = []"
    by (simp add: urlparse_query_def)
  have qb: "urlparse_query ''https://api.clubhouse.io/api/v3/search/stories?page_size=5''
              = ''page_size=5''"
    by (simp add: urlparse_query_def)
  from token_separator [where send = scripted and self = "ClubhouseClient ''KEY'' None"
      and meth = "''get''" and data = JNull and w = "\<lparr>server = [], sent = [], logged = []\<rparr>",
      OF transport_options_Nil a]
    token_separator [where send = scripted and self = "ClubhouseClient ''KEY'' None"
      and meth = "''get''" and data = JNull and w = "\<lparr>server = [], sent = [], logged = []\<rparr>",
      OF transport_options_Nil b]
  show ?thesis
    by (auto simp add: transport_options_Nil a b qa qb ClubhouseClient_def)
qed

text \<open>
  For \<^verbatim>\<open>urlparse\<close> a URL that ends in a question mark, or whose only question mark
  stands in the fragment, has an empty query: the key is appended after \<open>?\<close>.
\<close>

lemma urlparse_query_empty_examples:
  "urlparse_query ''https://api.clubhouse.io/api/v3/milestones?'' = []
   \<and> urlparse_query ''https://api.clubhouse.io/api/v3/milestones#a?b=1'' = []"
  by (simp add: urlparse_query_def)

text \<open>
  C9. The body of the request handed to the transport is \<^verbatim>\<open>json.dumps\<close> of the
  payload, which is \<open>null\<close> for \<^verbatim>\<open>None\<close>, and its headers are exactly the JSON content
  type: this holds of the request sent by a call that reaches the transport, the
  helpers without a payload send the body \<open>null\<close>, and no call of \<^verbatim>\<open>_request\<close> adds a
  request of another shape to those sent.
\<close>

theorem request_body_and_headers:
  "json_dumps JNull = ''null''
   \<and> (transport_options kwargs \<and> build_url segments = Inr url \<longrightarrow>
        (\<exists>r. sent (snd (request send self meth data segments kwargs w)) = sent w @ [r]
           \<and> req_data r = json_dumps data
           \<and> req_headers r = [(''Content-Type'', ''application/json'')])
        \<and> (\<exists>r. sent (snd (get_item send self segments kwargs w)) = sent w @ [r]
           \<and> req_data r = ''null''
           \<and> req_headers r = [(''Content-Type'', ''application/json'')])
        \<and> (\<exists>r. sent (snd (delete_item send self segments kwargs w)) = sent w @ [r]
           \<and> req_data r = ''null''
           \<and> req_headers r = [(''Content-Type'', ''application/json'')]))
   \<and> (sent (snd (request send self meth data segments kwargs w)) = sent w
        \<or> (\<exists>r. sent (snd (request send self meth data segments kwargs w)) = sent w @ [r]
              \<and> req_data r = json_dumps data
              \<and> req_headers r = [(''Content-Type'', ''application/json'')]))"
proof (intro conjI impI)
  show "json_dumps JNull = ''null''"
    by simp
next
  assume "transport_options kwargs \<and> build_url segments = Inr url"
  then show "\<exists>r. sent (snd (request send self meth data segments kwargs w)) = sent w @ [r]
           \<and> req_data r = json_dumps data
           \<and> req_headers r = [(''Content-Type'', ''application/json'')]"
    by (simp add: request_sends prepare_def)
next
  assume "transport_options kwargs \<and> build_url segments = Inr url"
  then show "\<exists>r. sent (snd (get_item send self segments kwargs w)) = sent w @ [r]
           \<and> req_data r = ''null''
           \<and> req_headers r = [(''Content-Type'', ''application/json'')]"
    by (simp add: get_item_def snd_decoded request_sends prepare_def)
next
  assume "transport_options kwargs \<and> build_url segments = Inr url"
  then show "\<exists>r. sent (snd (delete_item send self segments kwargs w)) = sent w @ [r]
           \<and> req_data r = ''null''
           \<and> req_headers r = [(''Content-Type'', ''application/json'')]"
    by (simp add: delete_item_def request_sends prepare_def)
next
  from request_sent_cases [of send self meth data segments kwargs w]
  show "sent (snd (request send self meth data segments kwargs w)) = sent w
        \<or> (\<exists>r. sent (snd (request send self meth data segments kwargs w)) = sent w @ [r]
              \<and> req_data r = json_dumps data
              \<and> req_headers r = [(''Content-Type'', ''application/json'')])"
    by (auto simp add: prepare_def)
qed

theorem request_body_and_headers_witness:
  "transport_options []
   \<and> build_url [Str ''milestones''] = Inr ''https://api.clubhouse.io/api/v3/milestones''
   \<and> sent (snd (request scripted (ClubhouseClient ''KEY'' None) ''post''
                   (JObj [(''name'', JStr ''TEST'')]) [Str ''milestones''] []
                   \<lparr>server = [], sent = [], logged = []\<rparr>))
       = [\<lparr>req_method = ''post'',
           req_url = ''https://api.clubhouse.io/api/v3/milestones?token=KEY'',
           req_headers = [(''Content-Type'', ''application/json'')],
           req_data = [CHR ''{'', CHR 0x22] @ ''name'' @ [CHR 0x22] @ '': '' @ [CHR 0x22]
                      @ ''TEST'' @ [CHR 0x22, CHR ''}''],
           req_kwargs = []\<rparr>]
   \<and> map req_data
         (sent (snd (get_item scripted (ClubhouseClient ''KEY'' None) [Str ''milestones''] []
                       \<lparr>server = [], sent = [], logged = []\<rparr>)))
       = [''null'']"
proof -
  have a: "build_url [Str ''milestones''] = Inr ''https://api.clubhouse.io/api/v3/milestones''"
    by (simp add: eval_url)
  from request_body_and_headers [where send = scripted and self = "ClubhouseClient ''KEY'' None"
      and meth = "''post''" and data = "JObj [(''name'', JStr ''TEST'')]"
      and segments = "[Str ''milestones'']" and kwargs = "[]"
      and url = "''https://api.clubhouse.io/api/v3/milestones''"
      and w = "\<lparr>server = [], sent = [], logged = []\<rparr>"]
  show ?thesis
    by (simp add: transport_options_Nil a request_sends get_item_def snd_decoded eval_prepare)
qed

subsection \<open>The action helpers\<close>

lemma classify_success:
  assumes "status_code response \<le> 299 \<or> status_code response \<in> set (ignored_status_codes self)"
    and "status_code response \<noteq> 204"
  shows "classify self response w = (Inr (Raw response), w)"
  using assms by (auto simp add: classify_def)

lemma request_204:
  assumes "transport_options kwargs" and "build_url segments = Inr url"
    and "send (server w) (prepare self meth data url kwargs) = (Inr response, s')"
    and "status_code response = 204"
  shows "request send self meth data segments kwargs w =
           (Inr EmptyMapping,
            w\<lparr>server := s', sent := sent w @ [prepare self meth data url kwargs]\<rparr>)"
  using assms by (simp add: request_dispatch classify_204)

lemma request_success:
  assumes "transport_options kwargs" and "build_url segments = Inr url"
    and "send (server w) (prepare self meth data url kwargs) = (Inr response, s')"
    and "status_code response \<le> 299 \<or> status_code response \<in> set (ignored_status_codes self)"
    and "status_code response \<noteq> 204"
  shows "request send self meth data segments kwargs w =
           (Inr (Raw response),
            w\<lparr>server := s', sent := sent w @ [prepare self meth data url kwargs]\<rparr>)"
  using assms by (simp add: request_dispatch classify_success)

lemma list_loop_stop:
  "\<not> truthy (next_link result) \<Longrightarrow>
   list_loop send self kwargs result items w = Some (Inr items, w)"
proof (cases "next_link result")
  case None
  then show ?thesis
    by (subst list_loop.simps) simp
next
  case (Some following)
  moreover assume "\<not> truthy (next_link result)"
  ultimately show ?thesis
    by simp
qed

lemma list_loop_step:
  assumes "next_link result = Some following"
  shows "list_loop send self kwargs result items w =
           (case request send self ''get'' JNull [Prepared following] kwargs w of
              (Inl e, w') \<Rightarrow> Some (Inl e, w')
            | (Inr result', w') \<Rightarrow>
                (case extend items result' of
                   Inl e \<Rightarrow> Some (Inl e, w')
                 | Inr items' \<Rightarrow>
                     (case result' of
                        EmptyMapping \<Rightarrow> Some (Inl AttributeError, w')
                      | Raw response \<Rightarrow> list_loop send self kwargs response items' w')))"
  using assms by (subst list_loop.simps) simp

text \<open>
  The call inside the loop never gets as far as the transport: its only segment is
  a \<^verbatim>\<open>PreparedRequest\<close>, on which line 54 raises.
\<close>

lemma request_prepared_segment:
  "request send self meth data (Prepared following # rest) kwargs w =
     (if names_parameter [''self'', ''method'', ''data''] kwargs then (Inl TypeError, w)
      else (Inl AttributeError, w))"
  by (simp add: request_def build_url_def)

lemma list_loop_next_raises:
  assumes "transport_options kwargs" and "next_link result = Some following"
  shows "list_loop send self kwargs result items w = Some (Inl AttributeError, w)"
  using assms
  by (simp add: list_loop_step request_prepared_segment transport_options_def)

lemma extend_EmptyMapping: "extend items EmptyMapping = Inl AttributeError"
  by (simp add: extend_def split: json.split)

text \<open>
  C7. \<^verbatim>\<open>_delete_item\<close> is \<^verbatim>\<open>_request\<close> with the method \<open>delete\<close> and the payload
  \<^verbatim>\<open>None\<close>, and returns what \<^verbatim>\<open>_request\<close> returns: the request sent has the method
  \<open>delete\<close> and the body \<open>null\<close>, a successful response other than 204 comes back
  as the response object, undecoded, and \<^verbatim>\<open>delete_milestone(123)\<close> against a server
  answering 204 requests \<^verbatim>\<open>/api/v3/milestones/123\<close> and returns the empty mapping.
  Keyword arguments are passed through when they name none of the parameters
  \<^verbatim>\<open>self\<close> and \<^verbatim>\<open>id\<close> of \<^verbatim>\<open>delete_milestone\<close>; when they name one, the call raises
  \<open>TypeError\<close> and nothing is sent.
\<close>

theorem delete_returns_raw_result:
  "delete_item send self segments kwargs w = request send self ''delete'' JNull segments kwargs w
   \<and> (transport_options kwargs \<and> build_url segments = Inr url
        \<and> send (server w) (prepare self ''delete'' JNull url kwargs) = (Inr response, s')
        \<and> (status_code response \<le> 299 \<or> status_code response \<in> set (ignored_status_codes self))
        \<and> status_code response \<noteq> 204 \<longrightarrow>
      req_method (prepare self ''delete'' JNull url kwargs) = ''delete''
      \<and> req_data (prepare self ''delete'' JNull url kwargs) = ''null''
      \<and> delete_item send self segments kwargs w =
          (Inr (Raw response),
           w\<lparr>server := s', sent := sent w @ [prepare self ''delete'' JNull url kwargs]\<rparr>))
   \<and> (transport_options kwargs \<and> \<not> names_parameter [''id''] kwargs
        \<and> send (server w)
             \<lparr>req_method = ''delete'',
              req_url = ''https://api.clubhouse.io/api/v3/milestones/123?token='' @ api_key self,
              req_headers = [(''Content-Type'', ''application/json'')],
              req_data = ''null'',
              req_kwargs = kwargs\<rparr> = (Inr response, s')
        \<and> status_code response = 204 \<longrightarrow>
      delete_milestone send self (Num 123) kwargs w =
        (Inr EmptyMapping,
         w\<lparr>server := s',
           sent := sent w @
             [\<lparr>req_method = ''delete'',
               req_url = ''https://api.clubhouse.io/api/v3/milestones/123?token='' @ api_key self,
               req_headers = [(''Content-Type'', ''application/json'')],
               req_data = ''null'',
               req_kwargs = kwargs\<rparr>]\<rparr>))
   \<and> (names_parameter [''self'', ''id''] kwargs \<longrightarrow>
      delete_milestone send self ident kwargs w = (Inl TypeError, w))"
proof (intro conjI impI)
  show "delete_item send self segments kwargs w
          = request send self ''delete'' JNull segments kwargs w"
    by (simp add: delete_item_def)
next
  show "req_method (prepare self ''delete'' JNull url kwargs) = ''delete''"
    by (simp add: prepare_def)
next
  show "req_data (prepare self ''delete'' JNull url kwargs) = ''null''"
    by (simp add: prepare_def)
next
  assume "transport_options kwargs \<and> build_url segments = Inr url
        \<and> send (server w) (prepare self ''delete'' JNull url kwargs) = (Inr response, s')
        \<and> (status_code response \<le> 299 \<or> status_code response \<in> set (ignored_status_codes self))
        \<and> status_code response \<noteq> 204"
  then show "delete_item send self segments kwargs w =
          (Inr (Raw response),
           w\<lparr>server := s', sent := sent w @ [prepare self ''delete'' JNull url kwargs]\<rparr>)"
    by (simp add: delete_item_def request_success)
next
  let ?url = "''https://api.clubhouse.io/api/v3/milestones/123''"
  let ?req = "\<lparr>req_method = ''delete'',
              req_url = ''https://api.clubhouse.io/api/v3/milestones/123?token='' @ api_key self,
              req_headers = [(''Content-Type'', ''application/json'')],
              req_data = ''null'',
              req_kwargs = kwargs\<rparr>"
  assume a: "transport_options kwargs \<and> \<not> names_parameter [''id''] kwargs
        \<and> send (server w) ?req = (Inr response, s')
        \<and> status_code response = 204"
  then have binds: "\<not> names_parameter [''self'', ''id''] kwargs"
    by (simp add: transport_options_def names_parameter_def)
  have req: "prepare self ''delete'' JNull ?url kwargs = ?req"
    by (simp add: prepare_def urlparse_query_def)
  from a have "request send self ''delete'' JNull [Str ''milestones'', Num 123] kwargs w =
           (Inr EmptyMapping,
            w\<lparr>server := s', sent := sent w @ [prepare self ''delete'' JNull ?url kwargs]\<rparr>)"
    by (intro request_204 [where response = response] build_url_milestone_123) (simp_all add: req)
  with binds show "delete_milestone send self (Num 123) kwargs w =
        (Inr EmptyMapping, w\<lparr>server := s', sent := sent w @ [?req]\<rparr>)"
    by (simp add: delete_milestone_def delete_item_def req)
next
  assume "names_parameter [''self'', ''id''] kwargs"
  then show "delete_milestone send self ident kwargs w = (Inl TypeError, w)"
    by (simp add: delete_milestone_def)
qed

theorem delete_returns_raw_result_witness:
  "delete_milestone scripted (ClubhouseClient ''KEY'' None) (Num 123) []
     \<lparr>server = [\<lparr>status_code = 204, content_text = [], json_body = Inl JSONDecodeError,
                  next_link = None\<rparr>],
      sent = [], logged = []\<rparr>
   = (Inr EmptyMapping,
      \<lparr>server = [],
       sent = [\<lparr>req_method = ''delete'',
                req_url = ''https://api.clubhouse.io/api/v3/milestones/123?token=KEY'',
                req_headers = [(''Content-Type'', ''application/json'')],
                req_data = ''null'',
                req_kwargs = []\<rparr>],
       logged = []\<rparr>)
   \<and> delete_item scripted (ClubhouseClient ''KEY'' None) [Str ''milestones'', Num 123] []
       \<lparr>server = [\<lparr>status_code = 200, content_text = ''{}'', json_body = Inr (JObj []),
                    next_link = None\<rparr>],
        sent = [], logged = []\<rparr>
     = (Inr (Raw \<lparr>status_code = 200, content_text = ''{}'', json_body = Inr (JObj []),
                   next_link = None\<rparr>),
        \<lparr>server = [],
         sent = [\<lparr>req_method = ''delete'',
                  req_url = ''https://api.clubhouse.io/api/v3/milestones/123?token=KEY'',
                  req_headers = [(''Content-Type'', ''application/json'')],
                  req_data = ''null'',
                  req_kwargs = []\<rparr>],
         logged = []\<rparr>)
   \<and> delete_milestone scripted (ClubhouseClient ''KEY'' None) (Num 123) [(''id'', JNum 5)]
       \<lparr>server = [\<lparr>status_code = 204, content_text = [], json_body = Inl JSONDecodeError,
                    next_link = None\<rparr>],
        sent = [], logged = []\<rparr>
     = (Inl TypeError,
        \<lparr>server = [\<lparr>status_code = 204, content_text = [], json_body = Inl JSONDecodeError,
                     next_link = None\<rparr>],
         sent = [], logged = []\<rparr>)"
proof -
  let ?self = "ClubhouseClient ''KEY'' None"
  let ?r204 = "\<lparr>status_code = 204, content_text = [], json_body = Inl JSONDecodeError,
                next_link = None\<rparr>"
  let ?r200 = "\<lparr>status_code = 200, content_text = ''{}'', json_body = Inr (JObj []),
                next_link = None\<rparr>"
  from delete_returns_raw_result [where send = scripted and self = ?self and kwargs = "[]"
      and segments = "[Str ''milestones'', Num 123]"
      and url = "''https://api.clubhouse.io/api/v3/milestones/123''"
      and w = "\<lparr>server = [?r204], sent = [], logged = []\<rparr>" and response = ?r204 and s' = "[]"]
  have first: "delete_milestone scripted ?self (Num 123) []
                 \<lparr>server = [?r204], sent = [], logged = []\<rparr>
               = (Inr EmptyMapping,
                  \<lparr>server = [],
                   sent = [\<lparr>req_method = ''delete'',
                      req_url = ''https://api.clubhouse.io/api/v3/milestones/123?token=KEY'',
                      req_headers = [(''Content-Type'', ''application/json'')],
                      req_data = ''null'', req_kwargs = []\<rparr>],
                   logged = []\<rparr>)"
    by (simp add: transport_options_Nil ClubhouseClient_def names_parameter_def)
  from delete_returns_raw_result [where send = scripted and self = ?self
      and kwargs = "[(''id'', JNum 5)]" and ident = "Num 123"
      and w = "\<lparr>server = [?r204], sent = [], logged = []\<rparr>"]
  have third: "delete_milestone scripted ?self (Num 123) [(''id'', JNum 5)]
                 \<lparr>server = [?r204], sent = [], logged = []\<rparr>
               = (Inl TypeError, \<lparr>server = [?r204], sent = [], logged = []\<rparr>)"
    by (simp add: names_parameter_def)
  have second: "delete_item scripted ?self [Str ''milestones'', Num 123] []
                 \<lparr>server = [?r200], sent = [], logged = []\<rparr>
               = (Inr (Raw ?r200),
                  \<lparr>server = [],
                   sent = [\<lparr>req_method = ''delete'',
                      req_url = ''https://api.clubhouse.io/api/v3/milestones/123?token=KEY'',
                      req_headers = [(''Content-Type'', ''application/json'')],
                      req_data = ''null'', req_kwargs = []\<rparr>],
                   logged = []\<rparr>)"
    by (simp add: delete_item_def request_def names_parameter_def classify_def
        build_url_milestone_123 eval_prepare)
  from first second third show ?thesis
    by simp
qed

text \<open>
  C10. When the response to the request of a create, get, update or list
  operation has status 204, \<^verbatim>\<open>_request\<close> returns the empty dictionary and the
  operation fails with \<open>AttributeError\<close> at \<^verbatim>\<open>result.json()\<close>: no decoded value and
  no empty list is returned. A list operation has no response but its first: when
  that response carries a \<^verbatim>\<open>next\<close>, the call inside the loop fails before anything
  is sent. Only \<^verbatim>\<open>_delete_item\<close> hands the empty mapping to its caller.
\<close>

theorem no_content_fails_except_delete:
  "(transport_options kwargs \<and> build_url segments = Inr url
      \<and> send (server w) (prepare self ''post'' data url kwargs) = (Inr response, s')
      \<and> status_code response = 204 \<longrightarrow>
    create_item send self data segments kwargs w =
      (Inl AttributeError,
       w\<lparr>server := s', sent := sent w @ [prepare self ''post'' data url kwargs]\<rparr>))
   \<and> (transport_options kwargs \<and> build_url segments = Inr url
      \<and> send (server w) (prepare self ''put'' data url kwargs) = (Inr response, s')
      \<and> status_code response = 204 \<longrightarrow>
    update_item send self data segments kwargs w =
      (Inl AttributeError,
       w\<lparr>server := s', sent := sent w @ [prepare self ''put'' data url kwargs]\<rparr>))
   \<and> (transport_options kwargs \<and> build_url segments = Inr url
      \<and> send (server w) (prepare self ''get'' JNull url kwargs) = (Inr response, s')
      \<and> status_code response = 204 \<longrightarrow>
    get_item send self segments kwargs w =
      (Inl AttributeError,
       w\<lparr>server := s', sent := sent w @ [prepare self ''get'' JNull url kwargs]\<rparr>)
    \<and> list_items send self segments kwargs w =
      Some (Inl AttributeError,
            w\<lparr>server := s', sent := sent w @ [prepare self ''get'' JNull url kwargs]\<rparr>))
   \<and> (transport_options kwargs \<and> next_link result = Some following \<longrightarrow>
    list_loop send self kwargs result items w = Some (Inl AttributeError, w))
   \<and> (transport_options kwargs \<and> build_url segments = Inr url
      \<and> send (server w) (prepare self ''delete'' JNull url kwargs) = (Inr response, s')
      \<and> status_code response = 204 \<longrightarrow>
    delete_item send self segments kwargs w =
      (Inr EmptyMapping,
       w\<lparr>server := s', sent := sent w @ [prepare self ''delete'' JNull url kwargs]\<rparr>))"
proof (intro conjI impI)
  assume "transport_options kwargs \<and> build_url segments = Inr url
      \<and> send (server w) (prepare self ''post'' data url kwargs) = (Inr response, s')
      \<and> status_code response = 204"
  then show "create_item send self data segments kwargs w =
      (Inl AttributeError,
       w\<lparr>server := s', sent := sent w @ [prepare self ''post'' data url kwargs]\<rparr>)"
    by (simp add: create_item_def decoded_def request_204)
next
  assume "transport_options kwargs \<and> build_url segments = Inr url
      \<and> send (server w) (prepare self ''put'' data url kwargs) = (Inr response, s')
      \<and> status_code response = 204"
  then show "update_item send self data segments kwargs w =
      (Inl AttributeError,
       w\<lparr>server := s', sent := sent w @ [prepare self ''put'' data url kwargs]\<rparr>)"
    by (simp add: update_item_def decoded_def request_204)
next
  assume "transport_options kwargs \<and> build_url segments = Inr url
      \<and> send (server w) (prepare self ''get'' JNull url kwargs) = (Inr response, s')
      \<and> status_code response = 204"
  then show "get_item send self segments kwargs w =
      (Inl AttributeError,
       w\<lparr>server := s', sent := sent w @ [prepare self ''get'' JNull url kwargs]\<rparr>)"
    by (simp add: get_item_def decoded_def request_204)
next
  assume "transport_options kwargs \<and> build_url segments = Inr url
      \<and> send (server w) (prepare self ''get'' JNull url kwargs) = (Inr response, s')
      \<and> status_code response = 204"
  then show "list_items send self segments kwargs w =
      Some (Inl AttributeError,
            w\<lparr>server := s', sent := sent w @ [prepare self ''get'' JNull url kwargs]\<rparr>)"
    by (simp add: list_items_def request_204)
next
  assume "transport_options kwargs \<and> next_link result = Some following"
  then show "list_loop send self kwargs result items w = Some (Inl AttributeError, w)"
    by (simp add: list_loop_next_raises)
next
  assume "transport_options kwargs \<and> build_url segments = Inr url
      \<and> send (server w) (prepare self ''delete'' JNull url kwargs) = (Inr response, s')
      \<and> status_code response = 204"
  then show "delete_item send self segments kwargs w =
      (Inr EmptyMapping,
       w\<lparr>server := s', sent := sent w @ [prepare self ''delete'' JNull url kwargs]\<rparr>)"
    by (simp add: delete_item_def request_204)
qed

theorem no_content_fails_except_delete_witness:
  "fst (create_item scripted (ClubhouseClient ''KEY'' None) (JObj [(''name'', JStr ''TEST'')])
          [Str ''milestones''] []
          \<lparr>server = [\<lparr>status_code = 204, content_text = [], json_body = Inr (JObj []),
                       next_link = None\<rparr>],
           sent = [], logged = []\<rparr>) = Inl AttributeError
   \<and> fst (update_item scripted (ClubhouseClient ''KEY'' None) (JObj [(''name'', JStr ''TEST'')])
          [Str ''milestones''] []
          \<lparr>server = [\<lparr>status_code = 204, content_text = [], json_body = Inr (JObj []),
                       next_link = None\<rparr>],
           sent = [], logged = []\<rparr>) = Inl AttributeError
   \<and> fst (get_item scripted (ClubhouseClient ''KEY'' None) [Str ''milestones''] []
          \<lparr>server = [\<lparr>status_code = 204, content_text = [], json_body = Inr (JObj []),
                       next_link = None\<rparr>],
           sent = [], logged = []\<rparr>) = Inl AttributeError
   \<and> map_option fst
        (list_items scripted (ClubhouseClient ''KEY'' None) [Str ''milestones''] []
          \<lparr>server = [\<lparr>status_code = 204, content_text = [], json_body = Inr (JObj []),
                       next_link = None\<rparr>],
           sent = [], logged = []\<rparr>) = Some (Inl AttributeError)
   \<and> list_loop scripted (ClubhouseClient ''KEY'' None) []
          \<lparr>status_code = 200, content_text = ''[]'', json_body = Inr (JArr []),
            next_link = Some \<lparr>prepared_method = ''GET'',
                               prepared_url = ''https://api.clubhouse.io/api/v3/milestones''\<rparr>\<rparr>
          (JArr [])
          \<lparr>server = [\<lparr>status_code = 204, content_text = [], json_body = Inr (JObj []),
                       next_link = None\<rparr>],
           sent = [], logged = []\<rparr>
       = Some (Inl AttributeError,
               \<lparr>server = [\<lparr>status_code = 204, content_text = [], json_body = Inr (JObj []),
                            next_link = None\<rparr>],
                sent = [], logged = []\<rparr>)
   \<and> fst (delete_item scripted (ClubhouseClient ''KEY'' None) [Str ''milestones''] []
          \<lparr>server = [\<lparr>status_code = 204, content_text = [], json_body = Inr (JObj []),
                       next_link = None\<rparr>],
           sent = [], logged = []\<rparr>) = Inr EmptyMapping"
proof -
  let ?self = "ClubhouseClient ''KEY'' None"
  let ?r = "\<lparr>status_code = 204, content_text = [], json_body = Inr (JObj []),
             next_link = None\<rparr>"
  let ?w = "\<lparr>server = [?r], sent = [], logged = []\<rparr>"
  have url: "build_url [Str ''milestones''] = Inr ''https://api.clubhouse.io/api/v3/milestones''"
    by (simp add: eval_url)
  from no_content_fails_except_delete [where send = scripted and self = ?self and kwargs = "[]"
      and segments = "[Str ''milestones'']" and data = "JObj [(''name'', JStr ''TEST'')]"
      and url = "''https://api.clubhouse.io/api/v3/milestones''" and w = ?w
      and response = ?r and s' = "[]"
      and following = "\<lparr>prepared_method = ''GET'',
                         prepared_url = ''https://api.clubhouse.io/api/v3/milestones''\<rparr>"
      and result = "\<lparr>status_code = 200, content_text = ''[]'', json_body = Inr (JArr []),
                     next_link = Some \<lparr>prepared_method = ''GET'',
                       prepared_url = ''https://api.clubhouse.io/api/v3/milestones''\<rparr>\<rparr>"
      and items = "JArr []"]
  show ?thesis
    by (simp add: transport_options_Nil url)
qed

subsection \<open>Pagination\<close>

text \<open>
  Whenever the first response of a list operation is a page (\<^verbatim>\<open>_request\<close> returns
  it and its body decodes) that carries a \<^verbatim>\<open>next\<close>, the operation fails with
  \<open>AttributeError\<close> after exactly one request: the second page is never asked for.
\<close>

lemma list_items_next_raises:
  assumes "transport_options kwargs"
    and "build_url segments = Inr url"
    and "send (server w) (prepare self ''get'' JNull url kwargs) = (Inr page, s')"
    and "status_code page \<le> 299 \<or> status_code page \<in> set (ignored_status_codes self)"
    and "status_code page \<noteq> 204"
    and "json_body page = Inr items"
    and "next_link page = Some following"
  shows "list_items send self segments kwargs w =
           Some (Inl AttributeError,
                 w\<lparr>server := s', sent := sent w @ [prepare self ''get'' JNull url kwargs]\<rparr>)"
proof -
  have "request send self ''get'' JNull segments kwargs w =
          (Inr (Raw page),
           w\<lparr>server := s', sent := sent w @ [prepare self ''get'' JNull url kwargs]\<rparr>)"
    using assms(1-5) by (rule request_success)
  then show ?thesis
    using assms(1) assms(6) assms(7) by (simp add: list_items_def list_loop_next_raises)
qed

text \<open>
  What holds of a list operation: when its first response is a page without a
  \<^verbatim>\<open>next\<close>, it returns the decoded body of that page after exactly one request.
\<close>

theorem list_items_single_page:
  assumes "transport_options kwargs"
    and "build_url segments = Inr url"
    and "send (server w) (prepare self ''get'' JNull url kwargs) = (Inr page, s')"
    and "status_code page \<le> 299 \<or> status_code page \<in> set (ignored_status_codes self)"
    and "status_code page \<noteq> 204"
    and "json_body page = Inr items"
    and "next_link page = None"
  shows "list_items send self segments kwargs w =
           Some (Inr items,
                 w\<lparr>server := s', sent := sent w @ [prepare self ''get'' JNull url kwargs]\<rparr>)"
proof -
  have "request send self ''get'' JNull segments kwargs w =
          (Inr (Raw page),
           w\<lparr>server := s', sent := sent w @ [prepare self ''get'' JNull url kwargs]\<rparr>)"
    using assms(1-5) by (rule request_success)
  then show ?thesis
    using assms(6) assms(7) by (simp add: list_items_def list_loop_stop)
qed

theorem list_items_single_page_witness:
  "list_items scripted (ClubhouseClient ''KEY'' None) [Str ''milestones'', Num 123, Str ''epics''] []
     \<lparr>server =
        [\<lparr>status_code = 200, content_text = ''[1, 2]'', json_body = Inr (JArr [JNum 1, JNum 2]),
          next_link = None\<rparr>],
      sent = [], logged = []\<rparr>
   = Some (Inr (JArr [JNum 1, JNum 2]),
           \<lparr>server = [],
            sent = [\<lparr>req_method = ''get'',
                     req_url = ''https://api.clubhouse.io/api/v3/milestones/123/epics?token=KEY'',
                     req_headers = [(''Content-Type'', ''application/json'')],
                     req_data = ''null'',
                     req_kwargs = []\<rparr>],
            logged = []\<rparr>)"
proof -
  let ?page = "\<lparr>status_code = 200, content_text = ''[1, 2]'',
                json_body = Inr (JArr [JNum 1, JNum 2]), next_link = None\<rparr>"
  have url: "build_url [Str ''milestones'', Num 123, Str ''epics'']
               = Inr ''https://api.clubhouse.io/api/v3/milestones/123/epics''"
    by (simp add: eval_url)
  from list_items_single_page [where send = scripted and self = "ClubhouseClient ''KEY'' None"
      and kwargs = "[]" and w = "\<lparr>server = [?page], sent = [], logged = []\<rparr>"
      and page = ?page and s' = "[]" and items = "JArr [JNum 1, JNum 2]",
      OF transport_options_Nil url]
  show ?thesis
    by (simp add: eval_prepare)
qed

text \<open>
  C3. \<^verbatim>\<open>list_milestones(allow_redirects=False)\<close> against a server whose first response
  is a redirect (status 302, which the client ignores) with the two items
  \<open>[1, 2]\<close> as body, so that its \<^verbatim>\<open>next\<close> is the prepared request for the second
  page, and whose second response would be the item \<open>[3]\<close> with no \<^verbatim>\<open>next\<close>: the
  loop passes the \<^verbatim>\<open>PreparedRequest\<close> to \<^verbatim>\<open>_request\<close> as a path segment, line 54 raises
  \<open>AttributeError\<close>, one request has been sent and the second response is never
  fetched. The three items are not returned.
\<close>

theorem list_items_fails_on_next:
  "list_milestones scripted (ClubhouseClient ''KEY'' (Some [302]))
     [(''allow_redirects'', JBool False)]
     \<lparr>server =
        [\<lparr>status_code = 302, content_text = ''[1, 2]'', json_body = Inr (JArr [JNum 1, JNum 2]),
          next_link = Some \<lparr>prepared_method = ''GET'',
                             prepared_url = ''https://api.clubhouse.io/api/v3/milestones?page=2''\<rparr>\<rparr>,
         \<lparr>status_code = 200, content_text = ''[3]'', json_body = Inr (JArr [JNum 3]),
          next_link = None\<rparr>],
      sent = [], logged = []\<rparr>
   = Some (Inl AttributeError,
           \<lparr>server =
              [\<lparr>status_code = 200, content_text = ''[3]'', json_body = Inr (JArr [JNum 3]),
                next_link = None\<rparr>],
            sent = [\<lparr>req_method = ''get'',
                     req_url = ''https://api.clubhouse.io/api/v3/milestones?token=KEY'',
                     req_headers = [(''Content-Type'', ''application/json'')],
                     req_data = ''null'',
                     req_kwargs = [(''allow_redirects'', JBool False)]\<rparr>],
            logged = []\<rparr>)"
  by (simp add: list_milestones_def list_items_def list_loop_step request_def
      names_parameter_def classify_def eval_url eval_prepare)

end
